theory Spec2Isabelle
  imports Main "HOL-Library.Word" "HOL-Library.Sublist"
begin

section \<open>Python string primitives used by ssh_server_manager.py\<close>

text \<open>
  A Python \<open>str\<close> is modelled as a HOL \<open>string\<close>; a \<open>char\<close> stands for a code
  point below 256. \<open>sq\<close> is the single quote and \<open>nl\<close> the newline that occur in
  the f-strings of the source.
\<close>

abbreviation sq :: string where
  "sq \<equiv> [CHR 0x27]"

abbreviation nl :: string where
  "nl \<equiv> [CHR 0x0A]"

text \<open>\<open>sub in s\<close> on strings: \<open>sub\<close> occurs in \<open>s\<close> as a contiguous substring.\<close>

fun str_in :: "string \<Rightarrow> string \<Rightarrow> bool" where
  "str_in sub [] = (sub = [])"
| "str_in sub (c # cs) = (prefix sub (c # cs) \<or> str_in sub cs)"

text \<open>\<open>str.isspace\<close> on a single code point below 256.\<close>

definition is_space :: "char \<Rightarrow> bool" where
  "is_space c \<longleftrightarrow> (of_char c :: nat) \<in> {9, 10, 11, 12, 13, 28, 29, 30, 31, 32, 133, 160}"

text \<open>\<open>s.strip()\<close>: leading and trailing whitespace removed.\<close>

definition strip :: "string \<Rightarrow> string" where
  "strip s = rev (dropWhile is_space (rev (dropWhile is_space s)))"

text \<open>\<open>os.path.basename(p)\<close> (posixpath): what follows the last slash.\<close>

definition basename :: "string \<Rightarrow> string" where
  "basename p = rev (takeWhile (\<lambda>c. c \<noteq> CHR ''/'') (rev p))"






section \<open>UUIDs\<close>

text \<open>
  \<open>uuid.uuid4()\<close> yields a random 128-bit value. \<open>.hex\<close> is \<open>'%032x' % int\<close>, and
  \<open>str(...)\<close> is that text cut 8-4-4-4-12 and joined with hyphens.
\<close>

type_synonym uuid = "128 word"

definition hex_digit :: "nat \<Rightarrow> char" where
  "hex_digit d = ''0123456789abcdef'' ! d"

fun hex_width :: "nat \<Rightarrow> nat \<Rightarrow> string" where
  "hex_width 0 v = []"
| "hex_width (Suc n) v = hex_width n (v div 16) @ [hex_digit (v mod 16)]"

definition uuid_hex :: "uuid \<Rightarrow> string" where
  "uuid_hex u = hex_width 32 (unat u)"

definition uuid_str :: "uuid \<Rightarrow> string" where
  "uuid_str u =
     (let h = uuid_hex u
      in take 8 h @ ''-'' @ take 4 (drop 8 h) @ ''-'' @ take 4 (drop 12 h) @ ''-''
         @ take 4 (drop 16 h) @ ''-'' @ drop 20 h)"

section \<open>The remote side and the process state\<close>

text \<open>
  What can be raised: an instance of \<open>Exception\<close>, which \<open>except Exception\<close>
  catches, or another \<open>BaseException\<close> (\<open>KeyboardInterrupt\<close>, \<open>SystemExit\<close>),
  which it lets through. Only the text \<open>str(e)\<close> is ever used.
\<close>

datatype exn = Exception string | BaseException string

fun exn_str :: "exn \<Rightarrow> string" where
  "exn_str (Exception m) = m"
| "exn_str (BaseException m) = m"

text \<open>\<open>isinstance(e, Exception)\<close>.\<close>

fun is_exception :: "exn \<Rightarrow> bool" where
  "is_exception (Exception m) = True"
| "is_exception (BaseException m) = False"



record valves =
  SSH_HOST :: string
  SSH_USERNAME :: string
  SSH_KEY_PATH :: "string option"

text \<open>
  The paramiko calls of the source, over an arbitrary remote world \<open>'w\<close>. Each either
  raises or returns. \<open>t_read_stdout\<close> and \<open>t_read_stderr\<close> stand for
  \<open>stdout.read().decode("utf-8")\<close> and \<open>stderr.read().decode("utf-8")\<close>;
  \<open>t_sftp_read\<close> and \<open>t_sftp_write\<close> for the \<open>with sftp.open(...)\<close> blocks.
\<close>

record 'w transport =
  t_connect :: "valves \<Rightarrow> 'w \<Rightarrow> (exn + unit) \<times> 'w"
  t_exec_command :: "string \<Rightarrow> 'w \<Rightarrow> (exn + unit) \<times> 'w"
  t_read_stdout :: "'w \<Rightarrow> (exn + string) \<times> 'w"
  t_read_stderr :: "'w \<Rightarrow> (exn + string) \<times> 'w"
  t_close :: "'w \<Rightarrow> (exn + unit) \<times> 'w"
  t_open_sftp :: "'w \<Rightarrow> (exn + unit) \<times> 'w"
  t_sftp_read :: "string \<Rightarrow> 'w \<Rightarrow> (exn + string) \<times> 'w"
  t_sftp_write :: "string \<Rightarrow> string \<Rightarrow> 'w \<Rightarrow> (exn + unit) \<times> 'w"
  t_sftp_close :: "'w \<Rightarrow> (exn + unit) \<times> 'w"

text \<open>What a \<open>Tools\<close> instance is: its valves and the transport it talks through.\<close>

record 'w tools =
  the_valves :: valves
  the_transport :: "'w transport"

text \<open>Every remote interaction, in the order it is attempted.\<close>

datatype event =
    Connect
  | ExecCommand string
  | ReadStdout
  | ReadStderr
  | CloseClient
  | OpenSftp
  | SftpRead string
  | SftpWrite string string
  | CloseSftp

text \<open>An entry of \<open>_pending_actions\<close>: the dict with keys type, file_path, content.\<close>

record action =
  a_type :: string
  a_file_path :: string
  a_content :: string

text \<open>
  The process state: the global table \<open>_pending_actions\<close>, the remote world, the
  log of remote interactions attempted so far, and the random values \<open>uuid4\<close> will
  return next.
\<close>

record 'w state =
  pending :: "string \<rightharpoonup> action"
  remote :: 'w
  trace :: "event list"
  rng :: "nat \<Rightarrow> uuid"

section \<open>Computations that may raise\<close>

definition ret :: "'a \<Rightarrow> 's \<Rightarrow> ('e + 'a) \<times> 's" where
  "ret x s = (Inr x, s)"

definition seq :: "('s \<Rightarrow> ('e + 'a) \<times> 's) \<Rightarrow> ('a \<Rightarrow> 's \<Rightarrow> ('e + 'b) \<times> 's) \<Rightarrow> 's \<Rightarrow> ('e + 'b) \<times> 's" where
  "seq m f s = (case m s of (Inl e, s') \<Rightarrow> (Inl e, s') | (Inr a, s') \<Rightarrow> f a s')"

text \<open>
  \<open>try: m except Exception as e: h e\<close>. What is no \<open>Exception\<close> is not caught.
\<close>

definition try_except :: "('s \<Rightarrow> (exn + 'a) \<times> 's) \<Rightarrow> (exn \<Rightarrow> 's \<Rightarrow> (exn + 'a) \<times> 's) \<Rightarrow> 's \<Rightarrow> (exn + 'a) \<times> 's" where
  "try_except m h s =
     (case m s of
        (Inl e, s') \<Rightarrow> if is_exception e then h e s' else (Inl e, s')
      | (Inr a, s') \<Rightarrow> (Inr a, s'))"

text \<open>One transport call: it acts on the remote world and is logged.\<close>

definition prim :: "event \<Rightarrow> ('w \<Rightarrow> (exn + 'a) \<times> 'w) \<Rightarrow> 'w state \<Rightarrow> (exn + 'a) \<times> 'w state" where
  "prim ev f s = (case f (remote s) of (r, w') \<Rightarrow> (r, s\<lparr>remote := w', trace := trace s @ [ev]\<rparr>))"

text \<open>\<open>uuid.uuid4()\<close>: local, never raises, consumes one random value.\<close>

definition uuid4 :: "'w state \<Rightarrow> (exn + uuid) \<times> 'w state" where
  "uuid4 s = (Inr (rng s 0), s\<lparr>rng := (\<lambda>n. rng s (Suc n))\<rparr>)"

section \<open>Helpers of class Tools\<close>

definition get_ssh_client :: "'w tools \<Rightarrow> 'w state \<Rightarrow> (exn + unit) \<times> 'w state" where
  "get_ssh_client self =
     try_except (prim Connect (t_connect (the_transport self) (the_valves self)))
       (\<lambda>e s. (Inl (Exception (''Failed to establish SSH connection: '' @ exn_str e)), s))"

text \<open>
  The handler of \<open>_run_remote_command\<close> formats the value the local \<open>command\<close> has
  when the exception arrives: the argument while connecting, the command with its
  \<open>cd\<close> prefix afterwards.
\<close>

definition run_failed :: "string \<Rightarrow> exn \<Rightarrow> string" where
  "run_failed command e = ''Failed to run command '' @ sq @ command @ sq @ '': '' @ exn_str e"

definition error_report :: "string \<Rightarrow> string \<Rightarrow> string" where
  "error_report output error =
     ''Error executing command:'' @ nl @ ''STDOUT:'' @ nl @ output @ nl @ ''STDERR:'' @ nl @ error"

definition with_working_dir :: "string option \<Rightarrow> string \<Rightarrow> string" where
  "with_working_dir working_dir command =
     (case working_dir of
        None \<Rightarrow> command
      | Some d \<Rightarrow> if d \<noteq> [] then ''cd '' @ d @ '' && '' @ command else command)"

definition run_result :: "string \<Rightarrow> string \<Rightarrow> string" where
  "run_result output error =
     (if error \<noteq> [] \<and> \<not> str_in ''sudo'' error then error_report output error
      else if output \<noteq> [] then output else error)"

definition run_remote_command :: "'w tools \<Rightarrow> string \<Rightarrow> string option \<Rightarrow> 'w state \<Rightarrow> (exn + string) \<times> 'w state" where
  "run_remote_command self command working_dir s =
     (case get_ssh_client self s of
        (Inl e, s1) \<Rightarrow> if is_exception e then (Inr (run_failed command e), s1) else (Inl e, s1)
      | (Inr client, s1) \<Rightarrow>
          (let command' = with_working_dir working_dir command
           in try_except
                (seq (prim (ExecCommand command') (t_exec_command (the_transport self) command')) (\<lambda>_.
                 seq (prim ReadStdout (t_read_stdout (the_transport self))) (\<lambda>out.
                 seq (prim ReadStderr (t_read_stderr (the_transport self))) (\<lambda>err.
                 seq (prim CloseClient (t_close (the_transport self))) (\<lambda>_.
                 ret (run_result (strip out) (strip err)))))))
                (\<lambda>e. ret (run_failed command' e)) s1))"

definition read_remote_file_content :: "'w tools \<Rightarrow> string \<Rightarrow> 'w state \<Rightarrow> (exn + string) \<times> 'w state" where
  "read_remote_file_content self remote_path =
     try_except
       (seq (get_ssh_client self) (\<lambda>client.
        seq (prim OpenSftp (t_open_sftp (the_transport self))) (\<lambda>sftp.
        seq (prim (SftpRead remote_path) (t_sftp_read (the_transport self) remote_path)) (\<lambda>content.
        seq (prim CloseSftp (t_sftp_close (the_transport self))) (\<lambda>_.
        seq (prim CloseClient (t_close (the_transport self))) (\<lambda>_.
        ret content))))))
       (\<lambda>e. ret (''Error reading file '' @ sq @ remote_path @ sq @ '': '' @ exn_str e))"

definition temp_path :: "string \<Rightarrow> uuid \<Rightarrow> string" where
  "temp_path remote_path u = ''/tmp/'' @ basename remote_path @ ''.tmp_'' @ uuid_hex u"

definition move_command :: "string \<Rightarrow> string \<Rightarrow> string" where
  "move_command temp_remote_path remote_path = ''sudo mv '' @ temp_remote_path @ '' '' @ remote_path"

definition write_remote_file_content :: "'w tools \<Rightarrow> string \<Rightarrow> string \<Rightarrow> 'w state \<Rightarrow> (exn + string) \<times> 'w state" where
  "write_remote_file_content self remote_path content =
     try_except
       (seq (get_ssh_client self) (\<lambda>client.
        seq (prim OpenSftp (t_open_sftp (the_transport self))) (\<lambda>sftp.
        seq uuid4 (\<lambda>u.
        let temp_remote_path = temp_path remote_path u in
        seq (prim (SftpWrite temp_remote_path content)
               (t_sftp_write (the_transport self) temp_remote_path content)) (\<lambda>_.
        seq (prim CloseSftp (t_sftp_close (the_transport self))) (\<lambda>_.
        seq (run_remote_command self (move_command temp_remote_path remote_path) None) (\<lambda>result.
        if str_in ''Error'' result then
          seq (run_remote_command self (''rm '' @ temp_remote_path) None) (\<lambda>_.
          ret (''Error moving temporary file: '' @ result))
        else ret (''Successfully updated '' @ remote_path @ ''.''))))))))
       (\<lambda>e. ret (''Error writing file '' @ remote_path @ '': '' @ exn_str e))"

section \<open>Tool definitions\<close>








definition proposed_message :: "string \<Rightarrow> string" where
  "proposed_message action_id =
     ''Proposed Nginx config update stored. To apply, say: '' @ sq @ ''Apply change '' @ action_id @ sq @ ''.''"

definition propose_nginx_config_update :: "'w tools \<Rightarrow> string \<Rightarrow> string \<Rightarrow> 'w state \<Rightarrow> (exn + string) \<times> 'w state" where
  "propose_nginx_config_update self proposed_content config_path =
     seq uuid4 (\<lambda>u s.
       let action_id = uuid_str u
       in (Inr (proposed_message action_id),
           s\<lparr>pending := (pending s)(action_id \<mapsto>
                \<lparr>a_type = ''nginx_config_update'', a_file_path = config_path,
                 a_content = proposed_content\<rparr>)\<rparr>))"

definition not_found_message :: "string \<Rightarrow> string" where
  "not_found_message action_id = ''Error: No pending change found with ID '' @ sq @ action_id @ sq @ ''.''"

definition validation_command :: "string \<Rightarrow> string" where
  "validation_command nginx_container_name = ''sudo docker exec '' @ nginx_container_name @ '' nginx -t''"

definition reload_command :: "string \<Rightarrow> string" where
  "reload_command nginx_container_name = ''sudo docker exec '' @ nginx_container_name @ '' nginx -s reload''"

text \<open>
  What \<open>apply_pending_change\<close> does once the entry has been popped from the table.
\<close>

definition apply_popped :: "'w tools \<Rightarrow> action \<Rightarrow> string \<Rightarrow> 'w state \<Rightarrow> (exn + string) \<times> 'w state" where
  "apply_popped self action_details nginx_container_name =
     (if a_type action_details = ''nginx_config_update'' then
        seq (write_remote_file_content self (a_file_path action_details) (a_content action_details)) (\<lambda>result.
        if str_in ''Successfully updated'' result then
          seq (run_remote_command self (validation_command nginx_container_name) None) (\<lambda>validation_output.
          if \<not> str_in ''syntax is ok'' validation_output \<and> \<not> str_in ''test is successful'' validation_output then
            ret (''Nginx config updated, but validation failed: '' @ validation_output @ ''.'')
          else
            seq (run_remote_command self (reload_command nginx_container_name) None) (\<lambda>reload_output.
            if str_in ''Error'' reload_output then
              ret (''Nginx config updated and validated, but reload failed: '' @ reload_output @ ''.'')
            else
              ret (''Successfully applied update to '' @ sq @ a_file_path action_details @ sq
                   @ '', validated, and Nginx reloaded.'')))
        else ret (''Failed to apply Nginx config update: '' @ result))
      else ret (''Unknown or unhandled action type '' @ sq @ a_type action_details @ sq @ ''.''))"

definition apply_pending_change :: "'w tools \<Rightarrow> string \<Rightarrow> string \<Rightarrow> 'w state \<Rightarrow> (exn + string) \<times> 'w state" where
  "apply_pending_change self action_id nginx_container_name s =
     (case pending s action_id of
        None \<Rightarrow> (Inr (not_found_message action_id), s)
      | Some action_details \<Rightarrow>
          apply_popped self action_details nginx_container_name
            (s\<lparr>pending := (pending s)(action_id := None)\<rparr>))"

section \<open>A scripted transport for concrete runs\<close>

text \<open>
  A remote side that follows a script: the outcomes of the next connection attempts
  (\<open>True\<close> connects, \<open>False\<close> times out; once the list is used up every attempt
  connects), whether SFTP sessions open, and the texts the next commands write to
  stdout and to stderr.
\<close>

record stub =
  connects :: "bool list"
  sftp_opens :: bool
  stdouts :: "string list"
  stderrs :: "string list"

definition stub_connect :: "valves \<Rightarrow> stub \<Rightarrow> (exn + unit) \<times> stub" where
  "stub_connect v w =
     (case connects w of
        [] \<Rightarrow> (Inr (), w)
      | b # bs \<Rightarrow> (if b then Inr () else Inl (Exception ''timed out''), w\<lparr>connects := bs\<rparr>))"

definition stub_read_stdout :: "stub \<Rightarrow> (exn + string) \<times> stub" where
  "stub_read_stdout w =
     (case stdouts w of [] \<Rightarrow> (Inr [], w) | x # xs \<Rightarrow> (Inr x, w\<lparr>stdouts := xs\<rparr>))"

definition stub_read_stderr :: "stub \<Rightarrow> (exn + string) \<times> stub" where
  "stub_read_stderr w =
     (case stderrs w of [] \<Rightarrow> (Inr [], w) | x # xs \<Rightarrow> (Inr x, w\<lparr>stderrs := xs\<rparr>))"

definition stub_open_sftp :: "stub \<Rightarrow> (exn + unit) \<times> stub" where
  "stub_open_sftp w = (if sftp_opens w then Inr () else Inl (Exception ''Channel closed''), w)"

definition stub_transport :: "stub transport" where
  "stub_transport =
     \<lparr>t_connect = stub_connect,
      t_exec_command = (\<lambda>c w. (Inr (), w)),
      t_read_stdout = stub_read_stdout,
      t_read_stderr = stub_read_stderr,
      t_close = (\<lambda>w. (Inr (), w)),
      t_open_sftp = stub_open_sftp,
      t_sftp_read = (\<lambda>p w. (Inr [], w)),
      t_sftp_write = (\<lambda>p c w. (Inr (), w)),
      t_sftp_close = (\<lambda>w. (Inr (), w))\<rparr>"

definition stub_tools :: "stub tools" where
  "stub_tools =
     \<lparr>the_valves = \<lparr>SSH_HOST = ''your.remote.server.ip'', SSH_USERNAME = ''svc_llm_ssh'',
                    SSH_KEY_PATH = Some ''/app/backend/data/keys/id_rsa''\<rparr>,
      the_transport = stub_transport\<rparr>"

definition stub_state :: "bool list \<Rightarrow> bool \<Rightarrow> string list \<Rightarrow> string list \<Rightarrow> stub state" where
  "stub_state cs sf outs errs =
     \<lparr>pending = Map.empty,
      remote = \<lparr>connects = cs, sftp_opens = sf, stdouts = outs, stderrs = errs\<rparr>,
      trace = [],
      rng = (\<lambda>n. of_nat n)\<rparr>"

section \<open>What a call does to the state\<close>

text \<open>
  The commands among a list of events; the frame every helper keeps: the table is
  untouched, the log only grows, by commands satisfying \<open>P\<close>, and the random supply
  is only consumed.
\<close>

fun commands_of :: "event list \<Rightarrow> string list" where
  "commands_of [] = []"
| "commands_of (ExecCommand c # evs) = c # commands_of evs"
| "commands_of (ev # evs) = commands_of evs"

definition effect :: "(string \<Rightarrow> bool) \<Rightarrow> 'w state \<Rightarrow> 'w state \<Rightarrow> bool" where
  "effect P s s' \<longleftrightarrow>
     pending s' = pending s
     \<and> (\<exists>t. trace s' = trace s @ t \<and> list_all P (commands_of t))
     \<and> (\<exists>n. rng s' = (\<lambda>k. rng s (k + n)))"

definition preserves :: "(string \<Rightarrow> bool) \<Rightarrow> ('w state \<Rightarrow> ('e + 'a) \<times> 'w state) \<Rightarrow> bool" where
  "preserves P m \<longleftrightarrow> (\<forall>s. effect P s (snd (m s)))"

text \<open>
  A computation that raises only what satisfies \<open>P\<close>; one that always returns; a
  transport none of whose calls raises anything but an \<open>Exception\<close>.
\<close>

definition raises_only :: "(exn \<Rightarrow> bool) \<Rightarrow> ('s \<Rightarrow> (exn + 'a) \<times> 's) \<Rightarrow> bool" where
  "raises_only P m \<longleftrightarrow> (\<forall>s e. fst (m s) = Inl e \<longrightarrow> P e)"


definition transport_raises :: "(exn \<Rightarrow> bool) \<Rightarrow> 'w transport \<Rightarrow> bool" where
  "transport_raises P t \<longleftrightarrow>
     (\<forall>v. raises_only P (t_connect t v))
     \<and> (\<forall>c. raises_only P (t_exec_command t c))
     \<and> raises_only P (t_read_stdout t)
     \<and> raises_only P (t_read_stderr t)
     \<and> raises_only P (t_close t)
     \<and> raises_only P (t_open_sftp t)
     \<and> (\<forall>p. raises_only P (t_sftp_read t p))
     \<and> (\<forall>p c. raises_only P (t_sftp_write t p c))
     \<and> raises_only P (t_sftp_close t)"


definition write_command :: "string \<Rightarrow> bool" where
  "write_command c \<longleftrightarrow> prefix ''sudo mv '' c \<or> prefix ''rm '' c"

definition apply_command :: "string \<Rightarrow> string \<Rightarrow> bool" where
  "apply_command container c \<longleftrightarrow>
     write_command c \<or> c = validation_command container \<or> c = reload_command container"

text \<open>A table holding one change of a kind no pipeline is defined for.\<close>

definition other_kind_state :: "stub state" where
  "other_kind_state =
     (stub_state [] True [] [])\<lparr>pending :=
        [''x1'' \<mapsto> \<lparr>a_type = ''crontab_update'', a_file_path = ''/etc/crontab'', a_content = ''#''\<rparr>]\<rparr>"

text \<open>A remote side of the scripted transport on which every call succeeds.\<close>

definition stub_remote :: "string list \<Rightarrow> string list \<Rightarrow> stub" where
  "stub_remote outs errs = \<lparr>connects = [], sftp_opens = True, stdouts = outs, stderrs = errs\<rparr>"

text \<open>
  A table holding one nginx change whose target path contains the words the caller looks
  for in a successful result, on a remote side where no SFTP session opens.
\<close>

definition marker_path_state :: "stub state" where
  "marker_path_state =
     (stub_state [] False [] [])\<lparr>pending :=
        [''x1'' \<mapsto> \<lparr>a_type = ''nginx_config_update'',
                     a_file_path = ''/srv/Successfully updated/app.conf'',
                     a_content = ''server{}''\<rparr>]\<rparr>"

text \<open>
  Scenario B of the specification: the upload and the move succeed, the syntax check
  prints \<open>syntax error on line 3\<close>.
\<close>

definition scenario_b_state :: "stub state" where
  "scenario_b_state =
     (stub_state [] True [[], ''syntax error on line 3''] [])\<lparr>pending :=
        [''x1'' \<mapsto> \<lparr>a_type = ''nginx_config_update'', a_file_path = ''/etc/svc/app.conf'',
                     a_content = ''server{}''\<rparr>]\<rparr>"


text \<open>
  A table holding one nginx change, on a remote side where the upload and the move
  succeed and the connection attempted next, for the syntax check, times out.
\<close>

definition dropped_check_state :: "stub state" where
  "dropped_check_state =
     (stub_state [True, True, False] True [] [])\<lparr>pending :=
        [''x1'' \<mapsto> \<lparr>a_type = ''nginx_config_update'', a_file_path = ''/etc/svc/app.conf'',
                     a_content = ''server{}''\<rparr>]\<rparr>"



section \<open>Sequences of calls\<close>




section \<open>Frame and totality lemmas\<close>

lemma commands_of_append: "commands_of (xs @ ys) = commands_of xs @ commands_of ys"
  by (induction xs rule: commands_of.induct) simp_all

lemma effect_refl: "effect P s s"
  unfolding effect_def by (auto intro: exI [of _ 0] exI [of _ "[]"])

lemma effect_trans:
  assumes "effect P s s'" and "effect P s' s''"
  shows "effect P s s''"
proof -
  from assms obtain t n t' n' where
    a: "pending s' = pending s" "trace s' = trace s @ t" "list_all P (commands_of t)"
       "rng s' = (\<lambda>k. rng s (k + n))"
    and b: "pending s'' = pending s'" "trace s'' = trace s' @ t'" "list_all P (commands_of t')"
       "rng s'' = (\<lambda>k. rng s' (k + n'))"
    unfolding effect_def by blast
  have "trace s'' = trace s @ (t @ t')" using a b by simp
  moreover have "list_all P (commands_of (t @ t'))" using a b by (simp add: commands_of_append)
  moreover have "rng s'' = (\<lambda>k. rng s (k + (n' + n)))" using a b by (simp add: add.assoc)
  ultimately show ?thesis unfolding effect_def using a b by (intro conjI exI) simp_all
qed

lemma effect_mono: "effect P s s' \<Longrightarrow> (\<And>c. P c \<Longrightarrow> Q c) \<Longrightarrow> effect Q s s'"
  unfolding effect_def by (auto simp: list_all_iff)

lemma preserves_ret: "preserves P (ret x)"
  by (simp add: preserves_def ret_def effect_refl)

lemma preserves_seq:
  assumes "preserves P m" and "\<And>a. preserves P (f a)"
  shows "preserves P (seq m f)"
  unfolding preserves_def
proof
  fix s
  show "effect P s (snd (seq m f s))"
  proof (cases "m s")
    case (Pair r s')
    have e1: "effect P s s'" using assms(1) Pair unfolding preserves_def by (metis snd_conv)
    show ?thesis
    proof (cases r)
      case (Inl e)
      then show ?thesis using Pair e1 by (simp add: seq_def)
    next
      case (Inr a)
      have "effect P s' (snd (f a s'))" using assms(2) unfolding preserves_def by blast
      then show ?thesis using Pair Inr e1 by (auto simp: seq_def intro: effect_trans)
    qed
  qed
qed

lemma preserves_try:
  assumes "preserves P m" and "\<And>e. preserves P (h e)"
  shows "preserves P (try_except m h)"
  unfolding preserves_def
proof
  fix s
  show "effect P s (snd (try_except m h s))"
  proof (cases "m s")
    case (Pair r s')
    have e1: "effect P s s'" using assms(1) Pair unfolding preserves_def by (metis snd_conv)
    show ?thesis
    proof (cases r)
      case (Inr a)
      then show ?thesis using Pair e1 by (simp add: try_except_def)
    next
      case (Inl e)
      have "effect P s' (snd (h e s'))" using assms(2) unfolding preserves_def by blast
      then show ?thesis using Pair Inl e1 by (auto simp: try_except_def intro: effect_trans)
    qed
  qed
qed

lemma preserves_prim_exec: "P c \<Longrightarrow> preserves P (prim (ExecCommand c) f)"
  unfolding preserves_def effect_def prim_def
  by (auto split: prod.splits intro: exI [of _ 0])

lemma preserves_prim_other: "\<forall>c. ev \<noteq> ExecCommand c \<Longrightarrow> preserves P (prim ev f)"
  unfolding preserves_def effect_def prim_def
  by (cases ev) (auto split: prod.splits intro: exI [of _ 0])

lemma preserves_uuid4: "preserves P uuid4"
  unfolding preserves_def effect_def uuid4_def
  by (auto intro: exI [of _ 1] exI [of _ "[]"])

lemma preserves_mono: "preserves P m \<Longrightarrow> (\<And>c. P c \<Longrightarrow> Q c) \<Longrightarrow> preserves Q m"
  unfolding preserves_def by (blast intro: effect_mono)

lemma preserves_get_ssh_client: "preserves P (get_ssh_client self)"
  unfolding get_ssh_client_def
  apply (rule preserves_try)
   apply (rule preserves_prim_other)
   apply simp
  apply (simp add: preserves_def effect_refl)
  done

lemma preserves_run_remote_command:
  assumes "P (with_working_dir working_dir command)"
  shows "preserves P (run_remote_command self command working_dir)"
  unfolding preserves_def
proof
  fix s
  have g: "effect P s (snd (get_ssh_client self s))"
    using preserves_get_ssh_client unfolding preserves_def by blast
  show "effect P s (snd (run_remote_command self command working_dir s))"
  proof (cases "get_ssh_client self s")
    case (Pair r s1)
    show ?thesis
    proof (cases r)
      case (Inl e)
      then show ?thesis using Pair g by (simp add: run_remote_command_def)
    next
      case (Inr u)
      let ?c = "with_working_dir working_dir command"
      have "preserves P (try_except
                (seq (prim (ExecCommand ?c) (t_exec_command (the_transport self) ?c)) (\<lambda>_.
                 seq (prim ReadStdout (t_read_stdout (the_transport self))) (\<lambda>out.
                 seq (prim ReadStderr (t_read_stderr (the_transport self))) (\<lambda>err.
                 seq (prim CloseClient (t_close (the_transport self))) (\<lambda>_.
                 ret (run_result (strip out) (strip err)))))))
                (\<lambda>e. ret (run_failed ?c e)))"
        by (intro preserves_try preserves_seq preserves_ret preserves_prim_exec assms
              preserves_prim_other) simp_all
      then have "effect P s1 (snd (run_remote_command self command working_dir s))"
        using Pair Inr unfolding preserves_def by (simp add: run_remote_command_def Let_def)
      then show ?thesis using g Pair by (auto intro: effect_trans)
    qed
  qed
qed

lemma preserves_if: "preserves P m \<Longrightarrow> preserves P m' \<Longrightarrow> preserves P (if b then m else m')"
  by simp

lemma raises_only_ret: "raises_only P (ret x)"
  by (simp add: raises_only_def ret_def)

lemma raises_only_uuid4: "raises_only P uuid4"
  by (simp add: raises_only_def uuid4_def)

lemma raises_only_prim: "raises_only P f \<Longrightarrow> raises_only P (prim ev f)"
  unfolding raises_only_def prim_def
  by (auto split: prod.splits) (metis fst_conv)

lemma raises_only_mono: "raises_only P m \<Longrightarrow> (\<And>e. P e \<Longrightarrow> Q e) \<Longrightarrow> raises_only Q m"
  unfolding raises_only_def by blast

lemma raises_only_if:
  "raises_only P m \<Longrightarrow> raises_only P m' \<Longrightarrow> raises_only P (if b then m else m')"
  by simp

lemma raises_only_seq:
  assumes "raises_only P m" and "\<And>a. raises_only P (f a)"
  shows "raises_only P (seq m f)"
  unfolding raises_only_def
proof (intro allI impI)
  fix s e
  assume r: "fst (seq m f s) = Inl e"
  show "P e"
  proof (cases "m s")
    case (Pair r1 s1)
    show ?thesis
    proof (cases r1)
      case (Inl e1)
      then have "fst (m s) = Inl e" using r Pair by (simp add: seq_def)
      then show ?thesis using assms(1) unfolding raises_only_def by blast
    next
      case (Inr a)
      then have "fst (f a s1) = Inl e" using r Pair by (simp add: seq_def)
      then show ?thesis using assms(2) unfolding raises_only_def by blast
    qed
  qed
qed

text \<open>
  What leaves a \<open>try\<close> block with an \<open>except Exception\<close> clause: what the
  handler raises, and what the body raises that is no \<open>Exception\<close>.
\<close>

lemma raises_only_try:
  assumes "raises_only Q m" and "\<And>e. raises_only P (h e)"
    and "\<And>e. Q e \<Longrightarrow> \<not> is_exception e \<Longrightarrow> P e"
  shows "raises_only P (try_except m h)"
  unfolding raises_only_def
proof (intro allI impI)
  fix s e
  assume r: "fst (try_except m h s) = Inl e"
  show "P e"
  proof (cases "m s")
    case (Pair r1 s1)
    show ?thesis
    proof (cases r1)
      case (Inl e1)
      have q: "Q e1" using assms(1) Pair Inl unfolding raises_only_def by (metis fst_conv)
      show ?thesis
      proof (cases "is_exception e1")
        case True
        then have "fst (h e1 s1) = Inl e" using r Pair Inl by (simp add: try_except_def)
        then show ?thesis using assms(2) unfolding raises_only_def by blast
      next
        case False
        then have "e = e1" using r Pair Inl by (simp add: try_except_def)
        then show ?thesis using assms(3) q False by blast
      qed
    next
      case (Inr a)
      then show ?thesis using r Pair by (simp add: try_except_def)
    qed
  qed
qed


lemma preserves_write_remote_file_content:
  "preserves write_command (write_remote_file_content self remote_path content)"
  unfolding write_remote_file_content_def Let_def
  by (intro preserves_try preserves_seq preserves_ret preserves_prim_other preserves_uuid4
        preserves_get_ssh_client preserves_run_remote_command preserves_if)
     (simp_all add: write_command_def with_working_dir_def move_command_def)

lemma preserves_apply_popped: "preserves (apply_command c) (apply_popped self a c)"
  unfolding apply_popped_def
  by (intro preserves_seq preserves_ret preserves_if
        preserves_mono [OF preserves_write_remote_file_content]
        preserves_run_remote_command)
     (simp_all add: apply_command_def with_working_dir_def)

section \<open>What the helpers let through\<close>

text \<open>
  When the calls of the transport raise only instances of \<open>Exception\<close> and what
  satisfies \<open>R\<close>, a helper with an \<open>except Exception\<close> clause raises only what
  satisfies \<open>R\<close> and is no \<open>Exception\<close>.
\<close>

lemma raises_only_get_ssh_client:
  assumes "transport_raises (\<lambda>e. is_exception e \<or> R e) (the_transport self)"
  shows "raises_only (\<lambda>e. is_exception e \<or> R e) (get_ssh_client self)"
  unfolding get_ssh_client_def
proof (rule raises_only_try [where Q = "\<lambda>e. is_exception e \<or> R e"])
  show "raises_only (\<lambda>e. is_exception e \<or> R e)
          (prim Connect (t_connect (the_transport self) (the_valves self)))"
    using assms unfolding transport_raises_def by (intro raises_only_prim) blast
next
  fix e
  show "raises_only (\<lambda>e. is_exception e \<or> R e)
          (\<lambda>s. (Inl (Exception (''Failed to establish SSH connection: '' @ exn_str e)), s))"
    by (simp add: raises_only_def)
next
  fix e
  assume "is_exception e \<or> R e" and "\<not> is_exception e"
  then show "is_exception e \<or> R e" by blast
qed

lemma raises_only_run_remote_command:
  assumes "transport_raises (\<lambda>e. is_exception e \<or> R e) (the_transport self)"
  shows "raises_only (\<lambda>e. \<not> is_exception e \<and> R e) (run_remote_command self command working_dir)"
  unfolding raises_only_def
proof (intro allI impI)
  fix s e
  assume r: "fst (run_remote_command self command working_dir s) = Inl e"
  let ?c = "with_working_dir working_dir command"
  let ?body = "try_except
                (seq (prim (ExecCommand ?c) (t_exec_command (the_transport self) ?c)) (\<lambda>_.
                 seq (prim ReadStdout (t_read_stdout (the_transport self))) (\<lambda>out.
                 seq (prim ReadStderr (t_read_stderr (the_transport self))) (\<lambda>err.
                 seq (prim CloseClient (t_close (the_transport self))) (\<lambda>_.
                 ret (run_result (strip out) (strip err)))))))
                (\<lambda>e. ret (run_failed ?c e))"
  have t: "raises_only (\<lambda>e. is_exception e \<or> R e) (t_exec_command (the_transport self) ?c)"
      "raises_only (\<lambda>e. is_exception e \<or> R e) (t_read_stdout (the_transport self))"
      "raises_only (\<lambda>e. is_exception e \<or> R e) (t_read_stderr (the_transport self))"
      "raises_only (\<lambda>e. is_exception e \<or> R e) (t_close (the_transport self))"
    using assms unfolding transport_raises_def by blast+
  have b: "raises_only (\<lambda>e. \<not> is_exception e \<and> R e) ?body"
    by (rule raises_only_try [where Q = "\<lambda>e. is_exception e \<or> R e"])
       (intro raises_only_seq raises_only_prim raises_only_ret t, rule raises_only_ret, blast)
  show "\<not> is_exception e \<and> R e"
  proof (cases "get_ssh_client self s")
    case (Pair r1 s1)
    show ?thesis
    proof (cases r1)
      case (Inl e1)
      have "is_exception e1 \<or> R e1"
        using raises_only_get_ssh_client [OF assms] Pair Inl unfolding raises_only_def
        by (metis fst_conv)
      moreover have "\<not> is_exception e1 \<and> e = e1"
        using r Pair Inl by (cases "is_exception e1") (simp_all add: run_remote_command_def)
      ultimately show ?thesis by blast
    next
      case (Inr u)
      then have "fst (?body s1) = Inl e" using r Pair by (simp add: run_remote_command_def Let_def)
      then show ?thesis using b unfolding raises_only_def by blast
    qed
  qed
qed

lemma raises_only_read_remote_file_content:
  assumes "transport_raises (\<lambda>e. is_exception e \<or> R e) (the_transport self)"
  shows "raises_only (\<lambda>e. \<not> is_exception e \<and> R e) (read_remote_file_content self remote_path)"
proof -
  have t: "raises_only (\<lambda>e. is_exception e \<or> R e) (t_open_sftp (the_transport self))"
      "raises_only (\<lambda>e. is_exception e \<or> R e) (t_sftp_read (the_transport self) remote_path)"
      "raises_only (\<lambda>e. is_exception e \<or> R e) (t_sftp_close (the_transport self))"
      "raises_only (\<lambda>e. is_exception e \<or> R e) (t_close (the_transport self))"
    using assms unfolding transport_raises_def by blast+
  show ?thesis
    unfolding read_remote_file_content_def
    by (rule raises_only_try [where Q = "\<lambda>e. is_exception e \<or> R e"])
       (intro raises_only_seq raises_only_prim raises_only_ret t
          raises_only_get_ssh_client [OF assms], rule raises_only_ret, blast)
qed

lemma raises_only_write_remote_file_content:
  assumes "transport_raises (\<lambda>e. is_exception e \<or> R e) (the_transport self)"
  shows "raises_only (\<lambda>e. \<not> is_exception e \<and> R e)
           (write_remote_file_content self remote_path content)"
proof -
  have t: "raises_only (\<lambda>e. is_exception e \<or> R e) (t_open_sftp (the_transport self))"
      "\<And>p. raises_only (\<lambda>e. is_exception e \<or> R e) (t_sftp_write (the_transport self) p content)"
      "raises_only (\<lambda>e. is_exception e \<or> R e) (t_sftp_close (the_transport self))"
    using assms unfolding transport_raises_def by blast+
  have c: "raises_only (\<lambda>e. is_exception e \<or> R e) (run_remote_command self cmd None)" for cmd
    by (rule raises_only_mono [OF raises_only_run_remote_command [OF assms]]) blast
  show ?thesis
    unfolding write_remote_file_content_def Let_def
    by (rule raises_only_try [where Q = "\<lambda>e. is_exception e \<or> R e"])
       (intro raises_only_seq raises_only_prim raises_only_ret raises_only_uuid4 raises_only_if
          t c raises_only_get_ssh_client [OF assms], rule raises_only_ret, blast)
qed

lemma raises_only_apply_popped:
  assumes "transport_raises (\<lambda>e. is_exception e \<or> R e) (the_transport self)"
  shows "raises_only (\<lambda>e. \<not> is_exception e \<and> R e) (apply_popped self a c)"
  unfolding apply_popped_def
  by (intro raises_only_seq raises_only_ret raises_only_if
        raises_only_write_remote_file_content [OF assms]
        raises_only_run_remote_command [OF assms])

lemma raises_only_apply_pending_change:
  assumes "transport_raises (\<lambda>e. is_exception e \<or> R e) (the_transport self)"
  shows "raises_only (\<lambda>e. \<not> is_exception e \<and> R e) (apply_pending_change self action_id c)"
  unfolding raises_only_def
proof (intro allI impI)
  fix s e
  assume "fst (apply_pending_change self action_id c s) = Inl e"
  then show "\<not> is_exception e \<and> R e"
    using raises_only_apply_popped [OF assms, of _ c] unfolding raises_only_def
    by (cases "pending s action_id") (simp_all add: apply_pending_change_def)
qed

lemma raises_only_propose:
  "raises_only P (propose_nginx_config_update self proposed_content config_path)"
  unfolding propose_nginx_config_update_def raises_only_def seq_def uuid4_def Let_def by simp

lemma transport_raises_any: "transport_raises (\<lambda>e. is_exception e \<or> True) t"
  by (simp add: transport_raises_def raises_only_def)



section \<open>Substrings, stripping, and a command that runs\<close>

lemma str_in_sublist: "str_in sub s \<longleftrightarrow> sublist sub s"
  by (induction s) (auto simp: sublist_Cons_right)

lemma str_in_iff: "str_in sub s \<longleftrightarrow> (\<exists>p q. s = p @ sub @ q)"
  by (simp add: str_in_sublist sublist_def)

lemma str_in_append: "str_in sub s \<Longrightarrow> str_in sub (p @ s @ q)"
  unfolding str_in_iff by (metis append.assoc)

lemma strip_decomp: "\<exists>a b. s = a @ strip s @ b \<and> (\<forall>c \<in> set a. is_space c) \<and> (\<forall>c \<in> set b. is_space c)"
proof -
  let ?t = "dropWhile is_space s"
  have 1: "s = takeWhile is_space s @ ?t" by simp
  have 2: "rev ?t = takeWhile is_space (rev ?t) @ dropWhile is_space (rev ?t)" by simp
  have "?t = strip s @ rev (takeWhile is_space (rev ?t))"
    unfolding strip_def by (metis 2 rev_append rev_rev_ident)
  then have "s = takeWhile is_space s @ strip s @ rev (takeWhile is_space (rev ?t))"
    using 1 by metis
  moreover have "\<forall>c \<in> set (takeWhile is_space s). is_space c"
    by (meson set_takeWhileD)
  moreover have "\<forall>c \<in> set (rev (takeWhile is_space (rev ?t))). is_space c"
    by (metis set_rev set_takeWhileD)
  ultimately show ?thesis by blast
qed

lemma strip_empty_iff: "strip s = [] \<longleftrightarrow> (\<forall>c \<in> set s. is_space c)"
proof
  assume "strip s = []"
  then show "\<forall>c \<in> set s. is_space c"
    using strip_decomp [of s] by (metis Un_iff append_Nil set_append)
next
  assume "\<forall>c \<in> set s. is_space c"
  then have d: "dropWhile is_space s = []" by simp
  show "strip s = []" unfolding strip_def d by simp
qed

lemma dropWhile_keeps: "\<not> P x \<Longrightarrow> \<exists>p'. dropWhile P (p @ x # r) = p' @ x # r"
proof (induction p)
  case Nil
  then show ?case by (intro exI [of _ "[]"]) simp
next
  case (Cons a p)
  show ?case
  proof (cases "P a")
    case True
    then show ?thesis using Cons by simp
  next
    case False
    then show ?thesis by (intro exI [of _ "a # p"]) simp
  qed
qed

lemma sudo_in_strip: "str_in ''sudo'' (strip s) \<longleftrightarrow> str_in ''sudo'' s"
proof
  assume "str_in ''sudo'' (strip s)"
  then show "str_in ''sudo'' s"
    using strip_decomp [of s] str_in_append by metis
next
  assume "str_in ''sudo'' s"
  then obtain p q where s: "s = p @ ''sudo'' @ q" unfolding str_in_iff by blast
  have ns: "\<not> is_space CHR ''s''" "\<not> is_space CHR ''o''" by (simp_all add: is_space_def)
  have d1: "\<exists>p'. dropWhile is_space (p @ ''sudo'' @ q) = p' @ ''sudo'' @ q"
    using dropWhile_keeps [of is_space "CHR ''s''" p "''udo'' @ q"] ns by simp
  then obtain p' where p': "dropWhile is_space s = p' @ ''sudo'' @ q" using s by blast
  have r: "rev (dropWhile is_space s) = rev q @ ''odus'' @ rev p'" using p' by simp
  have "\<exists>q'. dropWhile is_space (rev q @ ''odus'' @ rev p') = q' @ ''odus'' @ rev p'"
    using dropWhile_keeps [of is_space "CHR ''o''" "rev q" "''dus'' @ rev p'"] ns by simp
  then obtain q' where "dropWhile is_space (rev (dropWhile is_space s)) = q' @ ''odus'' @ rev p'"
    using r by metis
  then have "strip s = p' @ ''sudo'' @ rev q'" by (simp add: strip_def)
  then show "str_in ''sudo'' (strip s)" unfolding str_in_iff by blast
qed

lemma length_error_report: "length (error_report output error) = length output + length error + 42"
  by (simp add: error_report_def)

lemma run_result_is_report:
  "run_result output error = error_report output error \<longleftrightarrow> error \<noteq> [] \<and> \<not> str_in ''sudo'' error"
proof (cases "error \<noteq> [] \<and> \<not> str_in ''sudo'' error")
  case True
  then show ?thesis by (simp add: run_result_def)
next
  case False
  have "length (run_result output error) < length (error_report output error)"
    using False by (auto simp: run_result_def length_error_report)
  then have "run_result output error \<noteq> error_report output error" by auto
  then show ?thesis using False by blast
qed

lemma run_remote_command_ok:
  assumes "t_connect (the_transport self) (the_valves self) (remote s) = (Inr (), w1)"
    and "t_exec_command (the_transport self) (with_working_dir working_dir command) w1 = (Inr (), w2)"
    and "t_read_stdout (the_transport self) w2 = (Inr out, w3)"
    and "t_read_stderr (the_transport self) w3 = (Inr err, w4)"
    and "t_close (the_transport self) w4 = (Inr (), w5)"
  shows "fst (run_remote_command self command working_dir s) = Inr (run_result (strip out) (strip err))"
  using assms
  by (simp add: run_remote_command_def get_ssh_client_def try_except_def seq_def prim_def
      ret_def Let_def)


lemmas stub_defs = stub_tools_def stub_transport_def stub_state_def stub_connect_def
  stub_read_stdout_def stub_read_stderr_def stub_open_sftp_def stub_remote_def

section \<open>Evaluating concrete runs; the shape of apply\<close>

lemma hex_width_numeral:
  "hex_width (numeral k) v = hex_width (pred_numeral k) (v div 16) @ [hex_digit (v mod 16)]"
  by (metis hex_width.simps(2) numeral_eq_Suc)

lemma hex_width_1: "hex_width 1 v = [hex_digit (v mod 16)]"
  by (metis One_nat_def append_Nil hex_width.simps)

lemma uuid_hex_0: "uuid_hex 0 = ''00000000000000000000000000000000''"
  by (simp add: uuid_hex_def hex_width_numeral hex_width_1 hex_digit_def)

lemma uuid_hex_1: "uuid_hex 1 = ''00000000000000000000000000000001''"
  by (simp add: uuid_hex_def hex_width_numeral hex_width_1 hex_digit_def)

lemma uuid_str_0: "uuid_str 0 = ''00000000-0000-0000-0000-000000000000''"
  by (simp add: uuid_str_def uuid_hex_0)

lemma uuid_str_1: "uuid_str 1 = ''00000000-0000-0000-0000-000000000001''"
  by (simp add: uuid_str_def uuid_hex_1)

lemmas run_defs = write_remote_file_content_def run_remote_command_def get_ssh_client_def
  try_except_def seq_def prim_def ret_def uuid4_def Let_def temp_path_def move_command_def
  basename_def with_working_dir_def run_failed_def run_result_def error_report_def strip_def
  is_space_def

lemma apply_nginx:
  assumes "pending s action_id = Some a" and "a_type a = ''nginx_config_update''"
    and "write_remote_file_content self (a_file_path a) (a_content a)
           (s\<lparr>pending := (pending s)(action_id := None)\<rparr>) = (Inr result, s1)"
  shows "apply_pending_change self action_id c s =
     (if str_in ''Successfully updated'' result then
        seq (run_remote_command self (validation_command c) None) (\<lambda>validation_output.
          if \<not> str_in ''syntax is ok'' validation_output \<and> \<not> str_in ''test is successful'' validation_output then
            ret (''Nginx config updated, but validation failed: '' @ validation_output @ ''.'')
          else
            seq (run_remote_command self (reload_command c) None) (\<lambda>reload_output.
            if str_in ''Error'' reload_output then
              ret (''Nginx config updated and validated, but reload failed: '' @ reload_output @ ''.'')
            else
              ret (''Successfully applied update to '' @ sq @ a_file_path a @ sq
                   @ '', validated, and Nginx reloaded.''))) s1
      else (Inr (''Failed to apply Nginx config update: '' @ result), s1))"
  using assms by (simp add: apply_pending_change_def apply_popped_def seq_def ret_def)

lemma not_write_command:
  "\<not> write_command (validation_command c)" "\<not> write_command (reload_command c)"
  by (simp_all add: write_command_def validation_command_def reload_command_def)

lemma validation_is_not_reload: "validation_command c \<noteq> reload_command c"
  by (simp add: validation_command_def reload_command_def)

section \<open>Distinct random values give distinct ids\<close>

lemma hex_digit_inj: "a < 16 \<Longrightarrow> b < 16 \<Longrightarrow> hex_digit a = hex_digit b \<Longrightarrow> a = b"
  unfolding hex_digit_def
  by (subst (asm) nth_eq_iff_index_eq) simp_all

lemma length_hex_width: "length (hex_width n v) = n"
  by (induction n arbitrary: v) simp_all

lemma hex_width_inj: "v < 16 ^ n \<Longrightarrow> w < 16 ^ n \<Longrightarrow> hex_width n v = hex_width n w \<Longrightarrow> v = w"
proof (induction n arbitrary: v w)
  case 0
  then show ?case by simp
next
  case (Suc n)
  have dv: "v div 16 < 16 ^ n" and dw: "w div 16 < 16 ^ n"
    using Suc.prems(1,2) by (simp_all add: less_mult_imp_div_less mult.commute)
  have eq: "hex_width n (v div 16) = hex_width n (w div 16)"
    and dg: "hex_digit (v mod 16) = hex_digit (w mod 16)"
    using Suc.prems(3) by simp_all
  have "v div 16 = w div 16" using Suc.IH [OF dv dw eq] .
  moreover have "v mod 16 = w mod 16" using hex_digit_inj [OF _ _ dg] by simp
  ultimately show ?case by (metis div_mult_mod_eq)
qed

lemma uuid_hex_inj: "uuid_hex u = uuid_hex v \<Longrightarrow> u = v"
proof -
  assume a: "uuid_hex u = uuid_hex v"
  have b: "unat x < 16 ^ 32" for x :: uuid
    using unsigned_less [of x, where ?'a = nat] by simp
  have "unat u = unat v" using hex_width_inj [OF b b] a unfolding uuid_hex_def by blast
  then show ?thesis by (rule word_unat_eq_iff [THEN iffD2])
qed

lemma regroup:
  fixes h :: string
  shows "h = take 8 h @ take 4 (drop 8 h) @ take 4 (drop 12 h) @ take 4 (drop 16 h) @ drop 20 h"
proof -
  have a: "take 12 h = take 8 h @ take 4 (drop 8 h)" using take_add [of 8 4 h] by simp
  have b: "take 16 h = take 12 h @ take 4 (drop 12 h)" using take_add [of 12 4 h] by simp
  have c: "take 20 h = take 16 h @ take 4 (drop 16 h)" using take_add [of 16 4 h] by simp
  have "h = take 20 h @ drop 20 h" by simp
  then show ?thesis using a b c by (metis append.assoc)
qed

lemma uuid_str_inj: "uuid_str u = uuid_str v \<Longrightarrow> u = v"
proof -
  assume a: "uuid_str u = uuid_str v"
  let ?h = "uuid_hex u" and ?k = "uuid_hex v"
  have l: "length ?h = 32" "length ?k = 32" by (simp_all add: uuid_hex_def length_hex_width)
  have "take 8 ?h = take 8 ?k \<and> take 4 (drop 8 ?h) = take 4 (drop 8 ?k)
        \<and> take 4 (drop 12 ?h) = take 4 (drop 12 ?k) \<and> take 4 (drop 16 ?h) = take 4 (drop 16 ?k)
        \<and> drop 20 ?h = drop 20 ?k"
    using a l by (simp add: uuid_str_def Let_def)
  then have "?h = ?k" using regroup [of ?h] regroup [of ?k] by metis
  then show ?thesis by (rule uuid_hex_inj)
qed

section \<open>The table and the random supply along a run\<close>















lemma propose_eq:
  "propose_nginx_config_update self proposed_content config_path s
     = (Inr (proposed_message (uuid_str (rng s 0))),
        s\<lparr>rng := (\<lambda>n. rng s (Suc n)),
          pending := (pending s)(uuid_str (rng s 0) \<mapsto>
             \<lparr>a_type = ''nginx_config_update'', a_file_path = config_path,
              a_content = proposed_content\<rparr>)\<rparr>)"
  by (simp add: propose_nginx_config_update_def seq_def uuid4_def Let_def)












section \<open>C1: apply consumes the entry\<close>

lemma pending_apply_popped: "pending (snd (apply_popped self a c s)) = pending s"
  using preserves_apply_popped [of c self a] unfolding preserves_def effect_def by blast

text \<open>
  Claim C1. Whatever \<open>apply_pending_change\<close> returns, the table afterwards is the
  table before without the id: the entry is removed before any stage runs and no stage
  puts it back. A second call with the same id, with any container name, therefore
  returns the not-found message naming the id and changes nothing.
\<close>

theorem apply_is_destructive_read:
  "pending (snd (apply_pending_change self action_id c s)) = (pending s)(action_id := None)
   \<and> apply_pending_change self action_id c' (snd (apply_pending_change self action_id c s))
       = (Inr (not_found_message action_id), snd (apply_pending_change self action_id c s))"
proof -
  let ?s' = "snd (apply_pending_change self action_id c s)"
  have p: "pending ?s' = (pending s)(action_id := None)"
  proof (cases "pending s action_id")
    case None
    then have "(pending s)(action_id := None) = pending s" by (simp add: fun_upd_idem)
    then show ?thesis using None by (simp add: apply_pending_change_def)
  next
    case (Some a)
    then show ?thesis by (simp add: apply_pending_change_def pending_apply_popped)
  qed
  then have "pending ?s' action_id = None" by simp
  then have "apply_pending_change self action_id c' ?s' = (Inr (not_found_message action_id), ?s')"
    by (simp add: apply_pending_change_def)
  with p show ?thesis by simp
qed

section \<open>C2: stopping at the first failed stage\<close>

text \<open>
  What the code does: when the text returned by the commit does not contain
  \<open>Successfully updated\<close>, the commit's text is returned at once, and neither the
  validation nor the reload command is among the commands issued.
\<close>

lemma commit_judged_failed_short_circuits:
  assumes "pending s action_id = Some a" and "a_type a = ''nginx_config_update''"
    and "write_remote_file_content self (a_file_path a) (a_content a)
           (s\<lparr>pending := (pending s)(action_id := None)\<rparr>) = (Inr result, s1)"
    and "\<not> str_in ''Successfully updated'' result"
  shows "apply_pending_change self action_id c s
           = (Inr (''Failed to apply Nginx config update: '' @ result), s1)
         \<and> (\<exists>t. trace s1 = trace s @ t
               \<and> validation_command c \<notin> set (commands_of t)
               \<and> reload_command c \<notin> set (commands_of t))"
proof -
  let ?s0 = "s\<lparr>pending := (pending s)(action_id := None)\<rparr>"
  have "effect write_command ?s0 (snd (write_remote_file_content self (a_file_path a) (a_content a) ?s0))"
    using preserves_write_remote_file_content unfolding preserves_def by blast
  then obtain t where t: "trace s1 = trace s @ t" "list_all write_command (commands_of t)"
    using assms(3) unfolding effect_def by auto
  have "validation_command c \<notin> set (commands_of t)" "reload_command c \<notin> set (commands_of t)"
    using t(2) not_write_command [of c] by (auto simp: list_all_iff)
  then show ?thesis using apply_nginx [OF assms(1,2,3), of c] assms(4) t(1) by auto
qed

text \<open>
  When the validation output has neither success phrase, the validation failure is
  returned at once and the reload command is not among the commands issued.
\<close>

lemma validation_failed_short_circuits:
  assumes "pending s action_id = Some a" and "a_type a = ''nginx_config_update''"
    and "write_remote_file_content self (a_file_path a) (a_content a)
           (s\<lparr>pending := (pending s)(action_id := None)\<rparr>) = (Inr result, s1)"
    and "str_in ''Successfully updated'' result"
    and "run_remote_command self (validation_command c) None s1 = (Inr v, s2)"
    and "\<not> str_in ''syntax is ok'' v" and "\<not> str_in ''test is successful'' v"
  shows "apply_pending_change self action_id c s
           = (Inr (''Nginx config updated, but validation failed: '' @ v @ ''.''), s2)
         \<and> (\<exists>t. trace s2 = trace s @ t \<and> reload_command c \<notin> set (commands_of t))"
proof -
  let ?s0 = "s\<lparr>pending := (pending s)(action_id := None)\<rparr>"
  have "effect write_command ?s0 (snd (write_remote_file_content self (a_file_path a) (a_content a) ?s0))"
    using preserves_write_remote_file_content unfolding preserves_def by blast
  then obtain t where t: "trace s1 = trace s @ t" "list_all write_command (commands_of t)"
    using assms(3) unfolding effect_def by auto
  have "effect (\<lambda>x. x = validation_command c) s1
          (snd (run_remote_command self (validation_command c) None s1))"
    using preserves_run_remote_command [of "\<lambda>x. x = validation_command c" None "validation_command c" self]
    unfolding preserves_def by (simp add: with_working_dir_def)
  then obtain t' where t': "trace s2 = trace s1 @ t'"
      "list_all (\<lambda>x. x = validation_command c) (commands_of t')"
    using assms(5) unfolding effect_def by auto
  have "reload_command c \<notin> set (commands_of t)"
    using t(2) not_write_command [of c] by (auto simp: list_all_iff)
  moreover have "reload_command c \<notin> set (commands_of t')"
    using t'(2) validation_is_not_reload [of c] by (auto simp: list_all_iff)
  ultimately have "reload_command c \<notin> set (commands_of (t @ t'))"
    by (simp add: commands_of_append)
  moreover have "trace s2 = trace s @ (t @ t')" using t(1) t'(1) by simp
  ultimately show ?thesis
    using apply_nginx [OF assms(1,2,3), of c] assms(4,5,6,7) by (auto simp: seq_def ret_def)
qed

text \<open>
  Claim C2 at a run where the claim and the code part ways. The commit fails (no SFTP
  session opens, and the write-failed text is returned), but that text quotes the target
  path, which contains \<open>Successfully updated\<close>: the validation command is issued.
\<close>

theorem commit_error_with_marker_runs_validation:
  "fst (write_remote_file_content stub_tools ''/srv/Successfully updated/app.conf'' ''server{}''
          (marker_path_state\<lparr>pending := (pending marker_path_state)(''x1'' := None)\<rparr>))
     = Inr ''Error writing file /srv/Successfully updated/app.conf: Channel closed''
   \<and> fst (apply_pending_change stub_tools ''x1'' ''nginx'' marker_path_state)
     = Inr ''Nginx config updated, but validation failed: .''
   \<and> commands_of (trace (snd (apply_pending_change stub_tools ''x1'' ''nginx'' marker_path_state)))
     = [''sudo docker exec nginx nginx -t'']"
  by (simp add: apply_pending_change_def apply_popped_def validation_command_def
      marker_path_state_def run_defs stub_defs)

section \<open>C3: replacing a remote file\<close>

text \<open>
  Claim C3 at a run where the claim and the code part ways. The upload to the temporary
  path succeeds; the connection opened for the move command fails, so the move is never
  executed. The result of \<open>_run_remote_command\<close> is then its
  \<open>Failed to run command\<close> text, in which the caller finds no \<open>Error\<close>: no
  deletion of the temporary file is attempted and the success message is returned.
\<close>

theorem move_exception_reported_as_success:
  "fst (write_remote_file_content stub_tools ''/etc/svc/app.conf'' ''server{}''
          (stub_state [True, False] True [] []))
     = Inr ''Successfully updated /etc/svc/app.conf.''
   \<and> trace (snd (write_remote_file_content stub_tools ''/etc/svc/app.conf'' ''server{}''
          (stub_state [True, False] True [] [])))
     = [Connect, OpenSftp,
        SftpWrite ''/tmp/app.conf.tmp_00000000000000000000000000000000'' ''server{}'',
        CloseSftp, Connect]
   \<and> commands_of (trace (snd (write_remote_file_content stub_tools ''/etc/svc/app.conf''
          ''server{}'' (stub_state [True, False] True [] [])))) = []"
  by (simp add: run_defs stub_defs uuid_hex_0)


section \<open>C4: judging the validation; no rollback\<close>

text \<open>
  What the code does. After a commit whose result carries the success marker, the text
  \<open>_run_remote_command\<close> returns for the check command decides: with neither
  \<open>syntax is ok\<close> nor \<open>test is successful\<close> in it, the validation-failed message
  is returned and the state is the one the check left, so nothing further is run and the
  written file is not rolled back; with one of the phrases in it, the reload command is
  run next.
\<close>

lemma validation_decided_by_returned_text:
  assumes "pending s action_id = Some a" and "a_type a = ''nginx_config_update''"
    and "write_remote_file_content self (a_file_path a) (a_content a)
           (s\<lparr>pending := (pending s)(action_id := None)\<rparr>) = (Inr result, s1)"
    and "str_in ''Successfully updated'' result"
    and "run_remote_command self (validation_command c) None s1 = (Inr v, s2)"
  shows "(\<not> str_in ''syntax is ok'' v \<and> \<not> str_in ''test is successful'' v \<longrightarrow>
            apply_pending_change self action_id c s
              = (Inr (''Nginx config updated, but validation failed: '' @ v @ ''.''), s2))
         \<and> (str_in ''syntax is ok'' v \<or> str_in ''test is successful'' v \<longrightarrow>
            apply_pending_change self action_id c s
              = seq (run_remote_command self (reload_command c) None) (\<lambda>reload_output.
                  if str_in ''Error'' reload_output then
                    ret (''Nginx config updated and validated, but reload failed: '' @ reload_output @ ''.'')
                  else
                    ret (''Successfully applied update to '' @ sq @ a_file_path a @ sq
                         @ '', validated, and Nginx reloaded.'')) s2)"
  using apply_nginx [OF assms(1,2,3), of c] assms(4,5)
  by (auto simp: seq_def ret_def)


lemma scenario_b_validation_fails:
  "fst (apply_pending_change stub_tools ''x1'' ''nginx'' scenario_b_state)
     = Inr ''Nginx config updated, but validation failed: syntax error on line 3.''
   \<and> commands_of (trace (snd (apply_pending_change stub_tools ''x1'' ''nginx'' scenario_b_state)))
     = [''sudo mv /tmp/app.conf.tmp_00000000000000000000000000000000 /etc/svc/app.conf'',
        ''sudo docker exec nginx nginx -t'']"
proof -
  let ?a = "\<lparr>a_type = ''nginx_config_update'', a_file_path = ''/etc/svc/app.conf'',
             a_content = ''server{}''\<rparr>"
  let ?s0 = "scenario_b_state\<lparr>pending := (pending scenario_b_state)(''x1'' := None)\<rparr>"
  let ?w = "write_remote_file_content stub_tools (a_file_path ?a) (a_content ?a) ?s0"
  let ?v = "run_remote_command stub_tools (validation_command ''nginx'') None (snd ?w)"
  have 1: "pending scenario_b_state ''x1'' = Some ?a" by (simp add: scenario_b_state_def)
  have 2: "a_type ?a = ''nginx_config_update''" by simp
  have 3: "?w = (Inr ''Successfully updated /etc/svc/app.conf.'', snd ?w)"
    by (simp add: prod_eq_iff scenario_b_state_def run_defs stub_defs uuid_hex_0)
  have 4: "str_in ''Successfully updated'' ''Successfully updated /etc/svc/app.conf.''" by simp
  have 5: "?v = (Inr ''syntax error on line 3'', snd ?v)"
    by (simp add: prod_eq_iff validation_command_def scenario_b_state_def run_defs stub_defs uuid_hex_0)
  have "apply_pending_change stub_tools ''x1'' ''nginx'' scenario_b_state
          = (Inr (''Nginx config updated, but validation failed: '' @ ''syntax error on line 3'' @ ''.''), snd ?v)"
    using validation_decided_by_returned_text [OF 1 2 3 4 5] by simp
  then show ?thesis
    by (simp add: validation_command_def scenario_b_state_def run_defs stub_defs uuid_hex_0)
qed

text \<open>
  Claim C4 at a run where the claim and the code part ways. The check command never
  runs, because its connection times out, so it has no output at all; what
  \<open>_run_remote_command\<close> returns is its own failure text, which quotes the command
  and with it the container name \<open>syntax is ok\<close>. The caller finds the success
  phrase there, takes the validation as passed and reloads.
\<close>

theorem validation_not_run_counts_as_passed:
  "fst (run_remote_command stub_tools (validation_command ''syntax is ok'') None
          (stub_state [False] True [] []))
     = Inr ''Failed to run command 'sudo docker exec syntax is ok nginx -t': Failed to establish SSH connection: timed out''
   \<and> fst (apply_pending_change stub_tools ''x1'' ''syntax is ok'' dropped_check_state)
     = Inr ''Successfully applied update to '/etc/svc/app.conf', validated, and Nginx reloaded.''
   \<and> commands_of (trace (snd (apply_pending_change stub_tools ''x1'' ''syntax is ok''
          dropped_check_state)))
     = [''sudo mv /tmp/app.conf.tmp_00000000000000000000000000000000 /etc/svc/app.conf'',
        ''sudo docker exec syntax is ok nginx -s reload'']"
  by (simp add: apply_pending_change_def apply_popped_def validation_command_def
      reload_command_def dropped_check_state_def run_defs stub_defs uuid_hex_0)

section \<open>C5: the stderr heuristic\<close>

text \<open>
  Claim C5, as amended. When connecting, starting the command, reading stdout, reading
  stderr and closing the connection all complete without an exception, the result is
  the error report exactly when stderr holds a character that is not whitespace (it is
  non-empty after \<open>strip()\<close>) and does not contain \<open>sudo\<close>.
\<close>

theorem stderr_failure_heuristic:
  assumes "t_connect (the_transport self) (the_valves self) (remote s) = (Inr (), w1)"
    and "t_exec_command (the_transport self) (with_working_dir working_dir command) w1 = (Inr (), w2)"
    and "t_read_stdout (the_transport self) w2 = (Inr out, w3)"
    and "t_read_stderr (the_transport self) w3 = (Inr err, w4)"
    and "t_close (the_transport self) w4 = (Inr (), w5)"
  shows "fst (run_remote_command self command working_dir s) = Inr (error_report (strip out) (strip err))
         \<longleftrightarrow> (\<exists>c \<in> set err. \<not> is_space c) \<and> \<not> str_in ''sudo'' err"
proof -
  have "fst (run_remote_command self command working_dir s) = Inr (run_result (strip out) (strip err))"
    using assms by (rule run_remote_command_ok)
  then have "fst (run_remote_command self command working_dir s) = Inr (error_report (strip out) (strip err))
         \<longleftrightarrow> strip err \<noteq> [] \<and> \<not> str_in ''sudo'' (strip err)"
    by (simp add: run_result_is_report)
  then show ?thesis by (simp add: strip_empty_iff sudo_in_strip)
qed

theorem stderr_failure_heuristic_witness:
  "fst (run_remote_command stub_tools ''ls'' None (stub_state [] True [''ok''] [''boom'']))
     = Inr (error_report ''ok'' ''boom'')
   \<and> (\<exists>c \<in> set ''boom''. \<not> is_space c) \<and> \<not> str_in ''sudo'' ''boom''"
  using stderr_failure_heuristic [of stub_tools "stub_state [] True [''ok''] [''boom'']"
      "stub_remote [''ok''] [''boom'']" None "''ls''" "stub_remote [''ok''] [''boom'']"
      "''ok''" "stub_remote [] [''boom'']" "''boom''" "stub_remote [] []" "stub_remote [] []"]
  by (simp add: stub_defs with_working_dir_def strip_def is_space_def)

text \<open>
  The claim as stated fails: stderr holding only a newline is non-empty and has no
  \<open>sudo\<close> in it, and the command is not treated as failed; stdout is returned.
\<close>

theorem stderr_failure_heuristic_counterexample:
  "fst (run_remote_command stub_tools ''ls'' None (stub_state [] True [''ok''] [nl])) = Inr ''ok''
   \<and> nl \<noteq> [] \<and> \<not> str_in ''sudo'' nl
   \<and> ''ok'' \<noteq> error_report (strip ''ok'') (strip nl)"
  by (simp add: run_remote_command_def get_ssh_client_def try_except_def seq_def prim_def
      ret_def Let_def stub_defs with_working_dir_def strip_def is_space_def run_result_def
      error_report_def)

section \<open>C6: a proposal is local bookkeeping under a fresh id\<close>

lemma proposed_message_inj: "proposed_message a = proposed_message b \<Longrightarrow> a = b"
  by (simp add: proposed_message_def)



section \<open>C7: what a proposal changes\<close>

text \<open>
  Claim C7, as amended. A proposal is not free of effects and two proposals are not one:
  every call writes the change into the table under the id it draws and consumes one
  random value, while the remote world and the log of remote interactions stay as they
  are. When the id was not in the table the table has changed. A second call with the
  same arguments draws the next random value: when that differs from the first, the
  second call returns another message, and when its id was not in the table either, it
  adds a second entry.
\<close>

theorem propose_stores_an_entry_on_every_call:
  "let action_id = uuid_str (rng s 0);
       second_id = uuid_str (rng s 1);
       change = \<lparr>a_type = ''nginx_config_update'', a_file_path = config_path,
                 a_content = proposed_content\<rparr>;
       s' = snd (propose_nginx_config_update self proposed_content config_path s);
       s'' = snd (propose_nginx_config_update self proposed_content config_path s')
   in pending s' = (pending s)(action_id \<mapsto> change)
      \<and> rng s' = (\<lambda>n. rng s (Suc n)) \<and> remote s' = remote s \<and> trace s' = trace s
      \<and> (action_id \<notin> dom (pending s) \<longrightarrow> pending s' \<noteq> pending s)
      \<and> fst (propose_nginx_config_update self proposed_content config_path s')
          = Inr (proposed_message second_id)
      \<and> pending s'' = (pending s)(action_id \<mapsto> change, second_id \<mapsto> change)
      \<and> (rng s 1 \<noteq> rng s 0 \<longrightarrow>
            second_id \<noteq> action_id
            \<and> fst (propose_nginx_config_update self proposed_content config_path s')
                \<noteq> fst (propose_nginx_config_update self proposed_content config_path s)
            \<and> (second_id \<notin> dom (pending s) \<longrightarrow> pending s'' \<noteq> pending s'))"
proof -
  let ?i = "uuid_str (rng s 0)"
  let ?k = "uuid_str (rng s 1)"
  let ?a = "\<lparr>a_type = ''nginx_config_update'', a_file_path = config_path,
             a_content = proposed_content\<rparr>"
  let ?s' = "snd (propose_nginx_config_update self proposed_content config_path s)"
  let ?s'' = "snd (propose_nginx_config_update self proposed_content config_path ?s')"
  have s': "?s' = s\<lparr>rng := (\<lambda>n. rng s (Suc n)), pending := (pending s)(?i \<mapsto> ?a)\<rparr>"
    by (simp add: propose_eq)
  have 1: "pending ?s' = (pending s)(?i \<mapsto> ?a)" "rng ?s' = (\<lambda>n. rng s (Suc n))"
      "remote ?s' = remote s" "trace ?s' = trace s"
    unfolding s' by simp_all
  have 2: "pending ?s' \<noteq> pending s" if "?i \<notin> dom (pending s)"
  proof
    assume "pending ?s' = pending s"
    then have "pending ?s' ?i = pending s ?i" by simp
    then show False using that 1(1) by (simp add: domIff)
  qed
  have f: "fst (propose_nginx_config_update self proposed_content config_path ?s')
             = Inr (proposed_message ?k)"
    by (simp add: propose_eq)
  have 3: "pending ?s'' = (pending s)(?i \<mapsto> ?a, ?k \<mapsto> ?a)"
    by (simp add: propose_eq)
  have 4: "?k \<noteq> ?i" if "rng s 1 \<noteq> rng s 0"
    using that uuid_str_inj by blast
  have 5: "fst (propose_nginx_config_update self proposed_content config_path ?s')
             \<noteq> fst (propose_nginx_config_update self proposed_content config_path s)"
    if "rng s 1 \<noteq> rng s 0"
    using 4 [OF that] proposed_message_inj [of ?k ?i] unfolding f by (auto simp: propose_eq)
  have 6: "pending ?s'' \<noteq> pending ?s'" if "rng s 1 \<noteq> rng s 0" and "?k \<notin> dom (pending s)"
  proof
    assume "pending ?s'' = pending ?s'"
    then have "pending ?s'' ?k = pending ?s' ?k" by simp
    then show False using that(2) 4 [OF that(1)] unfolding 3 1(1) by (simp add: domIff)
  qed
  show ?thesis
    unfolding Let_def using 1 2 f 3 4 5 6 by (intro conjI allI impI)
qed


theorem propose_stores_an_entry_on_every_call_witness:
  "uuid_str (rng (stub_state [] True [] []) 0) \<notin> dom (pending (stub_state [] True [] []))
   \<and> rng (stub_state [] True [] []) 1 \<noteq> rng (stub_state [] True [] []) 0
   \<and> uuid_str (rng (stub_state [] True [] []) 1) \<notin> dom (pending (stub_state [] True [] []))
   \<and> pending (snd (propose_nginx_config_update stub_tools ''server{}'' ''/etc/svc/app.conf''
                     (stub_state [] True [] [])))
       \<noteq> pending (stub_state [] True [] [])
   \<and> fst (propose_nginx_config_update stub_tools ''server{}'' ''/etc/svc/app.conf''
            (snd (propose_nginx_config_update stub_tools ''server{}'' ''/etc/svc/app.conf''
                    (stub_state [] True [] []))))
       \<noteq> fst (propose_nginx_config_update stub_tools ''server{}'' ''/etc/svc/app.conf''
                (stub_state [] True [] []))
   \<and> pending (snd (propose_nginx_config_update stub_tools ''server{}'' ''/etc/svc/app.conf''
            (snd (propose_nginx_config_update stub_tools ''server{}'' ''/etc/svc/app.conf''
                    (stub_state [] True [] [])))))
       \<noteq> pending (snd (propose_nginx_config_update stub_tools ''server{}'' ''/etc/svc/app.conf''
                    (stub_state [] True [] [])))"
proof -
  let ?init = "stub_state [] True [] [] :: stub state"
  note t = propose_stores_an_entry_on_every_call [of ?init "''/etc/svc/app.conf''" "''server{}''"
      stub_tools, unfolded Let_def]
  have a: "uuid_str (rng ?init 0) \<notin> dom (pending ?init)" "uuid_str (rng ?init 1) \<notin> dom (pending ?init)"
    by (simp_all add: stub_state_def)
  have b: "rng ?init 1 \<noteq> rng ?init 0" by (simp add: stub_state_def)
  show ?thesis using t a b by blast
qed


text \<open>
  The claim as stated fails. From the empty table, a call returns the message for the
  first id and stores an entry, so the table has changed; the same call again returns a
  different message and stores a second entry.
\<close>

theorem propose_is_not_idempotent:
  "pending (stub_state [] True [] []) ''00000000-0000-0000-0000-000000000000'' = None
   \<and> fst (propose_nginx_config_update stub_tools ''server{}'' ''/etc/svc/app.conf''
            (stub_state [] True [] []))
       = Inr ''Proposed Nginx config update stored. To apply, say: 'Apply change 00000000-0000-0000-0000-000000000000'.''
   \<and> pending (snd (propose_nginx_config_update stub_tools ''server{}'' ''/etc/svc/app.conf''
                     (stub_state [] True [] []))) ''00000000-0000-0000-0000-000000000000''
       = Some \<lparr>a_type = ''nginx_config_update'', a_file_path = ''/etc/svc/app.conf'',
               a_content = ''server{}''\<rparr>
   \<and> pending (snd (propose_nginx_config_update stub_tools ''server{}'' ''/etc/svc/app.conf''
                     (stub_state [] True [] []))) ''00000000-0000-0000-0000-000000000001''
       = None
   \<and> fst (propose_nginx_config_update stub_tools ''server{}'' ''/etc/svc/app.conf''
            (snd (propose_nginx_config_update stub_tools ''server{}'' ''/etc/svc/app.conf''
                    (stub_state [] True [] []))))
       = Inr ''Proposed Nginx config update stored. To apply, say: 'Apply change 00000000-0000-0000-0000-000000000001'.''
   \<and> pending (snd (propose_nginx_config_update stub_tools ''server{}'' ''/etc/svc/app.conf''
            (snd (propose_nginx_config_update stub_tools ''server{}'' ''/etc/svc/app.conf''
                    (stub_state [] True [] []))))) ''00000000-0000-0000-0000-000000000001''
       = Some \<lparr>a_type = ''nginx_config_update'', a_file_path = ''/etc/svc/app.conf'',
               a_content = ''server{}''\<rparr>"
  by (simp add: propose_eq stub_state_def uuid_str_0 uuid_str_1 proposed_message_def)
section \<open>C8: a change of an unknown kind\<close>

text \<open>
  Claim C8. When the entry's type is not \<open>nginx_config_update\<close>, the call returns the
  unknown-type message; the entry is consumed, and nothing remote happens: the log of
  remote interactions and the remote world are as before.
\<close>

theorem unknown_kind_runs_no_stage:
  assumes "pending s action_id = Some a" and "a_type a \<noteq> ''nginx_config_update''"
  shows "apply_pending_change self action_id c s
           = (Inr (''Unknown or unhandled action type '' @ sq @ a_type a @ sq @ ''.''),
              s\<lparr>pending := (pending s)(action_id := None)\<rparr>)
         \<and> trace (snd (apply_pending_change self action_id c s)) = trace s
         \<and> remote (snd (apply_pending_change self action_id c s)) = remote s"
  using assms by (simp add: apply_pending_change_def apply_popped_def ret_def)

theorem unknown_kind_runs_no_stage_witness:
  "fst (apply_pending_change stub_tools ''x1'' ''nginx'' other_kind_state)
     = Inr ''Unknown or unhandled action type 'crontab_update'.''
   \<and> trace (snd (apply_pending_change stub_tools ''x1'' ''nginx'' other_kind_state)) = []"
  using unknown_kind_runs_no_stage [of other_kind_state "''x1''"
      "\<lparr>a_type = ''crontab_update'', a_file_path = ''/etc/crontab'', a_content = ''#''\<rparr>" stub_tools "''nginx''"]
  by (simp add: other_kind_state_def stub_state_def)

section \<open>C9: one string for both channels\<close>

text \<open>
  Claim C9, as amended. When connecting, starting the command, reading stdout, reading
  stderr and closing the connection all complete without an exception: if the command
  is judged failed (stderr, stripped of surrounding whitespace, is non-empty and has no
  \<open>sudo\<close> in it), the returned report embeds the stripped stdout and the stripped
  stderr, so every substring of the stripped stderr occurs in it; otherwise the result
  is the stripped stdout when that is non-empty and the stripped stderr when it is not.
\<close>

theorem channel_collapse:
  assumes "t_connect (the_transport self) (the_valves self) (remote s) = (Inr (), w1)"
    and "t_exec_command (the_transport self) (with_working_dir working_dir command) w1 = (Inr (), w2)"
    and "t_read_stdout (the_transport self) w2 = (Inr out, w3)"
    and "t_read_stderr (the_transport self) w3 = (Inr err, w4)"
    and "t_close (the_transport self) w4 = (Inr (), w5)"
  shows "(strip err \<noteq> [] \<and> \<not> str_in ''sudo'' (strip err) \<longrightarrow>
            fst (run_remote_command self command working_dir s)
              = Inr (error_report (strip out) (strip err))
            \<and> str_in (strip out) (error_report (strip out) (strip err))
            \<and> (\<forall>sub. str_in sub (strip err)
                  \<longrightarrow> str_in sub (error_report (strip out) (strip err))))
         \<and> (\<not> (strip err \<noteq> [] \<and> \<not> str_in ''sudo'' (strip err)) \<longrightarrow>
            fst (run_remote_command self command working_dir s)
              = Inr (if strip out \<noteq> [] then strip out else strip err))"
proof -
  have r: "fst (run_remote_command self command working_dir s) = Inr (run_result (strip out) (strip err))"
    using assms by (rule run_remote_command_ok)
  have o: "str_in (strip out) (error_report (strip out) (strip err))"
    unfolding str_in_iff error_report_def by (metis append.assoc)
  have e: "str_in sub (strip err) \<Longrightarrow> str_in sub (error_report (strip out) (strip err))" for sub
    unfolding error_report_def using str_in_append [of sub "strip err" _ "[]"]
    by (metis append.assoc append_Nil2)
  show ?thesis using r o e by (simp add: run_result_def)
qed

theorem channel_collapse_witness:
  "fst (run_remote_command stub_tools ''nginx -t'' None
          (stub_state [] True ['' '' @ nl]
             [''  nginx: configuration file test is successful'' @ nl]))
     = Inr (error_report [] ''nginx: configuration file test is successful'')
   \<and> str_in ''test is successful'' (error_report [] ''nginx: configuration file test is successful'')"
  using channel_collapse [of stub_tools
      "stub_state [] True ['' '' @ nl] [''  nginx: configuration file test is successful'' @ nl]"
      "stub_remote ['' '' @ nl] [''  nginx: configuration file test is successful'' @ nl]"
      None "''nginx -t''"
      "stub_remote ['' '' @ nl] [''  nginx: configuration file test is successful'' @ nl]"
      "'' '' @ nl"
      "stub_remote [] [''  nginx: configuration file test is successful'' @ nl]"
      "''  nginx: configuration file test is successful'' @ nl"
      "stub_remote [] []" "stub_remote [] []"]
  by (simp add: stub_defs with_working_dir_def strip_def is_space_def)

text \<open>
  The claim as stated fails: the report embeds the stripped texts, not the texts the
  command wrote. With \<open>boom\<close> and a newline on stderr, the letter \<open>m\<close> followed by
  the newline is a substring of stderr that does not occur in the returned report.
\<close>

theorem channel_collapse_counterexample:
  "fst (run_remote_command stub_tools ''ls'' None (stub_state [] True [[]] [''boom'' @ nl]))
     = Inr (error_report [] ''boom'')
   \<and> str_in (''m'' @ nl) (''boom'' @ nl)
   \<and> \<not> str_in (''m'' @ nl) (error_report [] ''boom'')"
  by (simp add: run_remote_command_def get_ssh_client_def try_except_def seq_def prim_def
      ret_def Let_def stub_defs with_working_dir_def strip_def is_space_def run_result_def
      error_report_def)

section \<open>C10: what reaches the caller\<close>

text \<open>
  Whatever the transport does, no instance of \<open>Exception\<close> leaves a helper, the
  proposal or the application: what they let through is no \<open>Exception\<close>.
\<close>

lemma helpers_catch_every_exception:
  "raises_only (\<lambda>e. \<not> is_exception e) (run_remote_command self command working_dir)"
  "raises_only (\<lambda>e. \<not> is_exception e) (read_remote_file_content self remote_path)"
  "raises_only (\<lambda>e. \<not> is_exception e) (write_remote_file_content self remote_path content)"
  "raises_only (\<lambda>e. \<not> is_exception e) (propose_nginx_config_update self proposed_content config_path)"
  "raises_only (\<lambda>e. \<not> is_exception e) (apply_pending_change self action_id c)"
  using raises_only_run_remote_command [OF transport_raises_any, of self command working_dir]
    raises_only_read_remote_file_content [OF transport_raises_any, of self remote_path]
    raises_only_write_remote_file_content [OF transport_raises_any, of self remote_path content]
    raises_only_apply_pending_change [OF transport_raises_any, of self action_id c]
    raises_only_propose [of "\<lambda>e. \<not> is_exception e" self proposed_content config_path]
  by simp_all








end
